theory Spec2Isabelle
  imports Main
begin

section \<open>The post administration route: data\<close>

text \<open>
  The repository holds two copies of one Remix route, \<^verbatim>\<open>app/routes/posts/admin/$slug.tsx\<close>:
  the authenticated one, whose action first awaits \<^verbatim>\<open>requireUserId(request)\<close>, and an earlier
  unauthenticated one. Each exports an \<^verbatim>\<open>action\<close> and a \<^verbatim>\<open>loader\<close>. Both are embedded here as
  functions over an explicit trace of the calls they make to their collaborators.
\<close>

subsection \<open>Form data\<close>

text \<open>
  A \<^verbatim>\<open>FormData\<close> is an ordered list of entries; an entry's value (\<^verbatim>\<open>FormDataEntryValue\<close>) is a
  string or an uploaded file. \<^verbatim>\<open>formData.get(name)\<close> is the value of the first entry of that
  name, or \<^verbatim>\<open>null\<close> (here \<open>None\<close>). \<^verbatim>\<open>Object.fromEntries(formData)\<close> walks the entries in order
  and defines one property per entry, so that of several entries of one name the last wins.
\<close>

datatype FormDataEntryValue = Str string | File string

type_synonym FormData = "(string \<times> FormDataEntryValue) list"

fun formData_get :: "FormData \<Rightarrow> string \<Rightarrow> FormDataEntryValue option" where
  "formData_get [] name = None"
| "formData_get ((k, v) # entries) name = (if k = name then Some v else formData_get entries name)"

definition Object_fromEntries :: "FormData \<Rightarrow> (string \<rightharpoonup> FormDataEntryValue)" where
  "Object_fromEntries entries = fold (\<lambda>(k, v) obj. obj(k \<mapsto> v)) entries Map.empty"

text \<open>
  JavaScript's truthiness of a \<^verbatim>\<open>FormDataEntryValue | null\<close>: \<^verbatim>\<open>null\<close> and the empty string are
  falsy, every other string and every object (a file) is truthy.
\<close>

fun truthy :: "FormDataEntryValue option \<Rightarrow> bool" where
  "truthy None = False"
| "truthy (Some (Str s)) = (s \<noteq> [])"
| "truthy (Some (File f)) = True"

text \<open>Truthiness of a \<^verbatim>\<open>null | string\<close>, as the error messages are.\<close>

fun truthy_string :: "string option \<Rightarrow> bool" where
  "truthy_string None = False"
| "truthy_string (Some s) = (s \<noteq> [])"

text \<open>
  \<^verbatim>\<open>typeof v === "string"\<close>, together with the narrowing TypeScript draws from it: the string
  when the test holds, \<open>None\<close> when it fails.
\<close>

fun typeof_string :: "FormDataEntryValue option \<Rightarrow> string option" where
  "typeof_string (Some (Str s)) = Some s"
| "typeof_string (Some (File f)) = None"
| "typeof_string None = None"

subsection \<open>Requests, responses and thrown values\<close>

text \<open>
  The objects \<^verbatim>\<open>{title, slug, markdown}\<close> occur twice in the action: as \<^verbatim>\<open>ActionData\<close>, with
  fields of type \<^verbatim>\<open>null | string\<close>, and as the second argument of \<^verbatim>\<open>updatePost\<close>, with fields
  of type \<^verbatim>\<open>string\<close>. One record with the field type as a parameter serves both.
\<close>

record 'a post_fields =
  title :: 'a
  slug :: 'a
  markdown :: 'a

type_synonym ActionData = "string option post_fields"

definition Object_values :: "'a post_fields \<Rightarrow> 'a list" where
  "Object_values obj = [title obj, slug obj, markdown obj]"

record 'post LoaderData =
  post :: 'post

text \<open>A handler returns \<^verbatim>\<open>redirect(url)\<close> or \<^verbatim>\<open>json(data)\<close>.\<close>

datatype 'a response = redirect string | json 'a

text \<open>
  What a handler throws: a failed \<^verbatim>\<open>invariant(condition, message)\<close> of tiny-invariant, or
  whatever a collaborator's promise rejected with. A failed invariant is kept with the
  \<^verbatim>\<open>message\<close> argument of the call, which tells the route's invariants apart; the text of the
  \<^verbatim>\<open>Error\<close> that tiny-invariant builds from it is not modelled.
\<close>

datatype thrown = InvariantFailed string | Rejected string

text \<open>
  Of a request the handlers use two things: the request itself, handed to \<^verbatim>\<open>requireUserId\<close>, and
  \<^verbatim>\<open>request.formData()\<close>, which resolves to the parsed body or rejects.
\<close>

record request =
  headers :: "(string \<times> string) list"
  formData :: "thrown + FormData"

type_synonym params = "string \<rightharpoonup> string"

subsection \<open>Collaborators and effects\<close>

text \<open>
  \<^verbatim>\<open>requireUserId\<close> (\<^verbatim>\<open>~/session.server\<close>) and \<^verbatim>\<open>getPost\<close>, \<^verbatim>\<open>updatePost\<close>, \<^verbatim>\<open>deletePost\<close>
  (\<^verbatim>\<open>~/models/post.server\<close>) are imported by the route and are not part of it. They are
  parameters of the handlers: each maps its arguments to the outcome of the promise it returns,
  \<open>Inr\<close> the value it resolves to and \<open>Inl\<close> what it rejects with. The type of a post is a
  parameter too: the route only passes posts on.
\<close>

record 'post collaborators =
  requireUserId :: "request \<Rightarrow> thrown + string"
  getPost :: "string \<Rightarrow> thrown + 'post option"
  updatePost :: "string \<Rightarrow> string post_fields \<Rightarrow> thrown + unit"
  deletePost :: "FormDataEntryValue option \<Rightarrow> thrown + unit"

text \<open>The calls a handler makes, in the order it makes them.\<close>

datatype event =
    Call_requireUserId
  | Call_formData
  | Call_getPost string
  | Call_updatePost string "string post_fields"
  | Call_deletePost "FormDataEntryValue option"

fun is_persistence :: "event \<Rightarrow> bool" where
  "is_persistence (Call_updatePost k p) = True"
| "is_persistence (Call_deletePost v) = True"
| "is_persistence Call_requireUserId = False"
| "is_persistence Call_formData = False"
| "is_persistence (Call_getPost s) = False"

definition persistence_calls :: "event list \<Rightarrow> event list" where
  "persistence_calls tr = filter is_persistence tr"

text \<open>
  An \<^verbatim>\<open>async\<close> function body is a computation that extends the trace and ends in a value
  or in a thrown one. \<open>await\<close> records the call and yields its outcome; \<open>and_then\<close> is the
  sequencing of statements, which a thrown value cuts short.
\<close>

type_synonym 'a eff = "event list \<Rightarrow> event list \<times> (thrown + 'a)"

definition resolve :: "'a \<Rightarrow> 'a eff" where
  "resolve x tr = (tr, Inr x)"

definition await :: "event \<Rightarrow> thrown + 'a \<Rightarrow> 'a eff" where
  "await ev outcome tr = (tr @ [ev], outcome)"

definition and_then :: "'a eff \<Rightarrow> ('a \<Rightarrow> 'b eff) \<Rightarrow> 'b eff" where
  "and_then m k tr =
     (case m tr of
        (tr', Inl e) \<Rightarrow> (tr', Inl e)
      | (tr', Inr x) \<Rightarrow> k x tr')"

text \<open>
  \<^verbatim>\<open>invariant(condition, message)\<close> throws when the condition is falsy. The condition is given
  as the narrowed value: \<open>None\<close> when it fails.
\<close>

definition invariant :: "'a option \<Rightarrow> string \<Rightarrow> 'a eff" where
  "invariant condition message tr =
     (case condition of
        None \<Rightarrow> (tr, Inl (InvariantFailed message))
      | Some x \<Rightarrow> (tr, Inr x))"

definition run :: "'a eff \<Rightarrow> event list \<times> (thrown + 'a)" where
  "run m = m []"

section \<open>The handlers\<close>

subsection \<open>The action of the authenticated route\<close>

definition action :: "'post collaborators \<Rightarrow> request \<Rightarrow> ActionData response eff" where
  "action env request =
     and_then (await Call_requireUserId (requireUserId env request)) (\<lambda>userId.
     and_then (await Call_formData (formData request)) (\<lambda>formData.
     let action' = Object_fromEntries formData ''_action'' in
     if action' = Some (Str ''delete'') then
       (let slug = formData_get formData ''slug'' in
        and_then (await (Call_deletePost slug) (deletePost env slug)) (\<lambda>_.
        resolve (redirect ''/posts/admin'')))
     else
       (let initialSlug = formData_get formData ''initialSlug'';
            title = formData_get formData ''title'';
            slug = formData_get formData ''slug'';
            markdown = formData_get formData ''markdown'';
            errors = \<lparr> title = (if truthy title then None else Some ''Title is required''),
                       slug = (if truthy slug then None else Some ''Slug is required''),
                       markdown = (if truthy markdown then None else Some ''Markdown is required'') \<rparr>;
            hasErrors = list_ex truthy_string (Object_values errors)
        in
        if hasErrors then resolve (json errors)
        else
          and_then (invariant (typeof_string initialSlug) ''initial slug must be a string'') (\<lambda>initialSlug.
          and_then (invariant (typeof_string title) ''title must be a string'') (\<lambda>title.
          and_then (invariant (typeof_string slug) ''slug must be a string'') (\<lambda>slug.
          and_then (invariant (typeof_string markdown) ''markdown must be a string'') (\<lambda>markdown.
          and_then (await (Call_updatePost initialSlug \<lparr> title = title, slug = slug, markdown = markdown \<rparr>)
                          (updatePost env initialSlug \<lparr> title = title, slug = slug, markdown = markdown \<rparr>)) (\<lambda>_.
          resolve (redirect ''/posts/admin'')))))))))"

subsection \<open>The action of the unauthenticated route\<close>

definition action_unauthenticated :: "'post collaborators \<Rightarrow> request \<Rightarrow> ActionData response eff" where
  "action_unauthenticated env request =
     and_then (await Call_formData (formData request)) (\<lambda>formData.
     let action' = Object_fromEntries formData ''_action'' in
     if action' = Some (Str ''delete'') then
       (let slug = formData_get formData ''slug'' in
        and_then (await (Call_deletePost slug) (deletePost env slug)) (\<lambda>_.
        resolve (redirect ''/posts/admin'')))
     else
       (let initialSlug = formData_get formData ''initialSlug'';
            title = formData_get formData ''title'';
            slug = formData_get formData ''slug'';
            markdown = formData_get formData ''markdown'';
            errors = \<lparr> title = (if truthy title then None else Some ''Title is required''),
                       slug = (if truthy slug then None else Some ''Slug is required''),
                       markdown = (if truthy markdown then None else Some ''Markdown is required'') \<rparr>;
            hasErrors = list_ex truthy_string (Object_values errors)
        in
        if hasErrors then resolve (json errors)
        else
          and_then (invariant (typeof_string initialSlug) ''initial slug must be a string'') (\<lambda>initialSlug.
          and_then (invariant (typeof_string title) ''title must be a string'') (\<lambda>title.
          and_then (invariant (typeof_string slug) ''slug must be a string'') (\<lambda>slug.
          and_then (invariant (typeof_string markdown) ''markdown must be a string'') (\<lambda>markdown.
          and_then (await (Call_updatePost initialSlug \<lparr> title = title, slug = slug, markdown = markdown \<rparr>)
                          (updatePost env initialSlug \<lparr> title = title, slug = slug, markdown = markdown \<rparr>)) (\<lambda>_.
          resolve (redirect ''/posts/admin''))))))))"

subsection \<open>The loader (the same in both routes)\<close>

text \<open>
  \<^verbatim>\<open>invariant(params.slug, ...)\<close> tests a \<^verbatim>\<open>string | undefined\<close> for truthiness: it fails on
  \<^verbatim>\<open>undefined\<close> and on the empty string.
\<close>

fun truthy_param :: "string option \<Rightarrow> string option" where
  "truthy_param None = None"
| "truthy_param (Some s) = (if s = [] then None else Some s)"

definition loader :: "'post collaborators \<Rightarrow> params \<Rightarrow> 'post LoaderData response eff" where
  "loader env params =
     and_then (invariant (truthy_param (params ''slug'')) ''params.slug is required'') (\<lambda>slug.
     and_then (await (Call_getPost slug) (getPost env slug)) (\<lambda>post.
     and_then (invariant post (''Post not found: '' @ slug)) (\<lambda>post.
     resolve (json \<lparr> post = post \<rparr>))))"

section \<open>Observations and the vocabulary of the claims\<close>

text \<open>
  A delete submission is one that the action's own discriminator sends to the delete branch:
  the \<^verbatim>\<open>_action\<close> property of \<^verbatim>\<open>Object.fromEntries(formData)\<close> is the string \<^verbatim>\<open>"delete"\<close>.
  Every other submission is an update submission.
\<close>

definition is_delete_submission :: "FormData \<Rightarrow> bool" where
  "is_delete_submission entries = (Object_fromEntries entries ''_action'' = Some (Str ''delete''))"

text \<open>A field is empty or absent: no entry of that name, or a first entry that is the empty string.\<close>

definition empty_or_absent :: "FormDataEntryValue option \<Rightarrow> bool" where
  "empty_or_absent v = (v = None \<or> v = Some (Str []))"

text \<open>
  The route parameter is missing, as the loader's truthiness test reads it: \<^verbatim>\<open>params.slug\<close> is
  \<^verbatim>\<open>undefined\<close> or the empty string (a dynamic path segment never matches the empty string).
\<close>

definition slug_missing :: "params \<Rightarrow> bool" where
  "slug_missing params = (params ''slug'' = None \<or> params ''slug'' = Some [])"

text \<open>
  What is observed of a handler run from the empty trace: all the calls it made, the
  persistence calls among them, and how it ended.
\<close>

definition trace_of :: "'a eff \<Rightarrow> event list" where
  "trace_of m = fst (run m)"

definition calls_of :: "'a eff \<Rightarrow> event list" where
  "calls_of m = persistence_calls (fst (run m))"

definition outcome :: "'a eff \<Rightarrow> thrown + 'a" where
  "outcome m = snd (run m)"

text \<open>
  Collaborators for the concrete runs below: a session is a \<^verbatim>\<open>Cookie\<close> header naming the user,
  one post is stored, and the persistence calls resolve.
\<close>

definition test_collaborators :: "string post_fields collaborators" where
  "test_collaborators =
     \<lparr> requireUserId = (\<lambda>request. case map_of (headers request) ''Cookie'' of
                                      None \<Rightarrow> Inl (Rejected ''/login'')
                                    | Some userId \<Rightarrow> Inr userId),
       getPost = (\<lambda>slug. Inr (if slug = ''my-post''
                               then Some \<lparr> title = ''My Post'', slug = ''my-post'', markdown = ''# Hello'' \<rparr>
                               else None)),
       updatePost = (\<lambda>initialSlug post. Inr ()),
       deletePost = (\<lambda>slug. Inr ()) \<rparr>"

abbreviation signed_in :: "FormData \<Rightarrow> request" where
  "signed_in entries \<equiv> \<lparr> headers = [(''Cookie'', ''user-1'')], formData = Inr entries \<rparr>"

abbreviation anonymous :: "FormData \<Rightarrow> request" where
  "anonymous entries \<equiv> \<lparr> headers = [], formData = Inr entries \<rparr>"

section \<open>How the action runs\<close>

lemmas eff_defs = run_def and_then_def await_def invariant_def resolve_def
lemmas obs_defs = trace_of_def calls_of_def outcome_def persistence_calls_def

lemma truthy_iff: "truthy v = (\<not> empty_or_absent v)"
  by (cases v rule: truthy.cases) (simp_all add: empty_or_absent_def)

lemma action_unauthenticated_trace:
  "action_unauthenticated env request tr =
     (tr @ fst (run (action_unauthenticated env request)), snd (run (action_unauthenticated env request)))"
  by (simp add: action_unauthenticated_def eff_defs Let_def split: sum.splits option.splits)

lemma action_authenticated:
  assumes "requireUserId env request = Inr userId"
  shows "run (action env request) = action_unauthenticated env request [Call_requireUserId]"
  using assms by (simp add: action_def action_unauthenticated_def eff_defs)

lemma run_delete:
  assumes "formData request = Inr fd" and "is_delete_submission fd"
  shows "run (action_unauthenticated env request) =
           ([Call_formData, Call_deletePost (formData_get fd ''slug'')],
            case deletePost env (formData_get fd ''slug'') of
              Inl e \<Rightarrow> Inl e | Inr u \<Rightarrow> Inr (redirect ''/posts/admin''))"
  using assms
  by (simp add: action_unauthenticated_def eff_defs is_delete_submission_def Let_def split: sum.splits)

lemma run_invalid:
  assumes "formData request = Inr fd" and "\<not> is_delete_submission fd"
    and "\<not> (truthy (formData_get fd ''title'') \<and> truthy (formData_get fd ''slug'')
            \<and> truthy (formData_get fd ''markdown''))"
  shows "run (action_unauthenticated env request) =
           ([Call_formData],
            Inr (json \<lparr> title = (if truthy (formData_get fd ''title'') then None else Some ''Title is required''),
                        slug = (if truthy (formData_get fd ''slug'') then None else Some ''Slug is required''),
                        markdown = (if truthy (formData_get fd ''markdown'') then None else Some ''Markdown is required'') \<rparr>))"
  using assms
  by (auto simp add: action_unauthenticated_def eff_defs is_delete_submission_def Let_def Object_values_def)

lemma run_valid:
  assumes "formData request = Inr fd" and "\<not> is_delete_submission fd"
    and "truthy (formData_get fd ''title'')" and "truthy (formData_get fd ''slug'')"
    and "truthy (formData_get fd ''markdown'')"
  shows "run (action_unauthenticated env request) =
           (case typeof_string (formData_get fd ''initialSlug'') of
              None \<Rightarrow> ([Call_formData], Inl (InvariantFailed ''initial slug must be a string''))
            | Some i \<Rightarrow>
           (case typeof_string (formData_get fd ''title'') of
              None \<Rightarrow> ([Call_formData], Inl (InvariantFailed ''title must be a string''))
            | Some t \<Rightarrow>
           (case typeof_string (formData_get fd ''slug'') of
              None \<Rightarrow> ([Call_formData], Inl (InvariantFailed ''slug must be a string''))
            | Some s \<Rightarrow>
           (case typeof_string (formData_get fd ''markdown'') of
              None \<Rightarrow> ([Call_formData], Inl (InvariantFailed ''markdown must be a string''))
            | Some m \<Rightarrow>
              ([Call_formData, Call_updatePost i \<lparr> title = t, slug = s, markdown = m \<rparr>],
               case updatePost env i \<lparr> title = t, slug = s, markdown = m \<rparr> of
                 Inl e \<Rightarrow> Inl e | Inr u \<Rightarrow> Inr (redirect ''/posts/admin''))))))"
  using assms
  by (simp add: action_unauthenticated_def eff_defs is_delete_submission_def Let_def Object_values_def
           split: sum.splits option.splits)


lemma action_authenticated_run:
  assumes "requireUserId env request = Inr userId"
  shows "run (action env request) =
           (Call_requireUserId # fst (run (action_unauthenticated env request)),
            snd (run (action_unauthenticated env request)))"
  using action_authenticated [OF assms] action_unauthenticated_trace [of env request "[Call_requireUserId]"]
  by simp

lemma calls_of_authenticated:
  "requireUserId env request = Inr userId \<Longrightarrow>
     calls_of (action env request) = calls_of (action_unauthenticated env request)"
  by (simp add: obs_defs action_authenticated_run)

lemma outcome_authenticated:
  "requireUserId env request = Inr userId \<Longrightarrow>
     outcome (action env request) = outcome (action_unauthenticated env request)"
  by (simp add: obs_defs action_authenticated_run)

lemma action_unauthenticated_runs:
  "(\<exists>e. run (action_unauthenticated env request) = ([Call_formData], Inl e))
   \<or> (\<exists>errors. run (action_unauthenticated env request) = ([Call_formData], Inr (json errors)))
   \<or> (\<exists>v res. run (action_unauthenticated env request) = ([Call_formData, Call_deletePost v], res)
         \<and> (res = Inr (redirect ''/posts/admin'') \<or> (\<exists>e. res = Inl e)))
   \<or> (\<exists>i p res. run (action_unauthenticated env request) = ([Call_formData, Call_updatePost i p], res)
         \<and> (res = Inr (redirect ''/posts/admin'') \<or> (\<exists>e. res = Inl e)))"
proof (cases "formData request")
  case (Inl e)
  then show ?thesis
    by (simp add: action_unauthenticated_def eff_defs)
next
  case (Inr fd)
  show ?thesis
  proof (cases "is_delete_submission fd")
    case True
    show ?thesis
      by (simp add: run_delete [OF Inr True] split: sum.splits)
  next
    case False
    show ?thesis
    proof (cases "truthy (formData_get fd ''title'') \<and> truthy (formData_get fd ''slug'')
                    \<and> truthy (formData_get fd ''markdown'')")
      case True
      then show ?thesis
        by (simp add: run_valid [OF Inr False] split: option.splits sum.splits)
    next
      case False
      show ?thesis
        by (simp add: run_invalid [OF Inr \<open>\<not> is_delete_submission fd\<close> False])
    qed
  qed
qed

lemma at_most_one_unauthenticated:
  "length (calls_of (action_unauthenticated env request)) \<le> 1
   \<and> (\<forall>url. outcome (action_unauthenticated env request) = Inr (redirect url)
          \<longrightarrow> length (calls_of (action_unauthenticated env request)) = 1)
   \<and> (\<forall>errors. outcome (action_unauthenticated env request) = Inr (json errors)
          \<longrightarrow> calls_of (action_unauthenticated env request) = [])
   \<and> \<not> (\<exists>v i p. Call_deletePost v \<in> set (trace_of (action_unauthenticated env request))
                \<and> Call_updatePost i p \<in> set (trace_of (action_unauthenticated env request)))"
  using action_unauthenticated_runs [of env request]
  by (elim disjE exE conjE) (simp_all add: obs_defs)

lemma at_most_one_authenticated:
  "length (calls_of (action env request)) \<le> 1
   \<and> (\<forall>url. outcome (action env request) = Inr (redirect url)
          \<longrightarrow> length (calls_of (action env request)) = 1)
   \<and> (\<forall>errors. outcome (action env request) = Inr (json errors)
          \<longrightarrow> calls_of (action env request) = [])
   \<and> \<not> (\<exists>v i p. Call_deletePost v \<in> set (trace_of (action env request))
                \<and> Call_updatePost i p \<in> set (trace_of (action env request)))"
proof (cases "requireUserId env request")
  case (Inl e)
  then show ?thesis
    by (simp add: obs_defs action_def eff_defs)
next
  case (Inr userId)
  have t: "trace_of (action env request) = Call_requireUserId # trace_of (action_unauthenticated env request)"
    by (simp add: obs_defs action_authenticated_run [OF Inr])
  show ?thesis
    using at_most_one_unauthenticated [of env request]
    by (simp add: calls_of_authenticated [OF Inr] outcome_authenticated [OF Inr] t)
qed

lemma no_deletePost_unauthenticated:
  assumes "formData request = Inr fd"
    and "\<not> is_delete_submission fd"
  shows "Call_deletePost v \<notin> set (trace_of (action_unauthenticated env request))"
proof (cases "truthy (formData_get fd ''title'') \<and> truthy (formData_get fd ''slug'')
                \<and> truthy (formData_get fd ''markdown'')")
  case True
  then show ?thesis
    by (simp add: obs_defs run_valid [OF assms] split: option.splits)
next
  case False
  show ?thesis
    by (simp add: obs_defs run_invalid [OF assms False])
qed

section \<open>How the loader runs\<close>

lemma truthy_param_None: "(truthy_param p = None) = (p = None \<or> p = Some [])"
  by (cases p rule: truthy_param.cases) simp_all

lemma truthy_param_Some: "(truthy_param p = Some s) = (p = Some s \<and> s \<noteq> [])"
  by (cases p rule: truthy_param.cases) auto

lemma loader_missing:
  "slug_missing params \<Longrightarrow>
     run (loader env params) = ([], Inl (InvariantFailed ''params.slug is required''))"
  by (simp add: slug_missing_def truthy_param_None [symmetric] loader_def eff_defs)

lemma loader_present:
  assumes "params ''slug'' = Some s" and "s \<noteq> []"
  shows "run (loader env params) =
           ([Call_getPost s],
            case getPost env s of
              Inl e \<Rightarrow> Inl e
            | Inr None \<Rightarrow> Inl (InvariantFailed (''Post not found: '' @ s))
            | Inr (Some p) \<Rightarrow> Inr (json \<lparr> post = p \<rparr>))"
  using assms by (simp add: loader_def eff_defs split: sum.splits option.splits)

section \<open>The claims\<close>

text \<open>
  C1 (as amended). For every update submission in which \<^verbatim>\<open>title\<close>, \<^verbatim>\<open>slug\<close> and \<^verbatim>\<open>markdown\<close>
  are non-empty strings and \<^verbatim>\<open>initialSlug\<close> is submitted as a string, the action, in both
  routes (in the authenticated one once \<^verbatim>\<open>requireUserId\<close> has resolved), makes exactly one
  persistence call, \<^verbatim>\<open>updatePost\<close> keyed by the submitted \<^verbatim>\<open>initialSlug\<close> and carrying the
  new \<^verbatim>\<open>{title, slug, markdown}\<close>, and when that call resolves it returns a redirect to
  \<^verbatim>\<open>/posts/admin\<close>.
\<close>

theorem update_submission_updates:
  assumes "formData request = Inr fd"
    and "\<not> is_delete_submission fd"
    and "formData_get fd ''initialSlug'' = Some (Str i)"
    and "formData_get fd ''title'' = Some (Str t)" and "t \<noteq> []"
    and "formData_get fd ''slug'' = Some (Str s)" and "s \<noteq> []"
    and "formData_get fd ''markdown'' = Some (Str m)" and "m \<noteq> []"
  shows "calls_of (action_unauthenticated env request)
           = [Call_updatePost i \<lparr> title = t, slug = s, markdown = m \<rparr>]
       \<and> (updatePost env i \<lparr> title = t, slug = s, markdown = m \<rparr> = Inr ()
            \<longrightarrow> outcome (action_unauthenticated env request) = Inr (redirect ''/posts/admin''))
       \<and> (requireUserId env request = Inr userId
            \<longrightarrow> calls_of (action env request)
                  = [Call_updatePost i \<lparr> title = t, slug = s, markdown = m \<rparr>]
              \<and> (updatePost env i \<lparr> title = t, slug = s, markdown = m \<rparr> = Inr ()
                   \<longrightarrow> outcome (action env request) = Inr (redirect ''/posts/admin'')))"
proof -
  have r: "run (action_unauthenticated env request) =
             ([Call_formData, Call_updatePost i \<lparr> title = t, slug = s, markdown = m \<rparr>],
              case updatePost env i \<lparr> title = t, slug = s, markdown = m \<rparr> of
                Inl e \<Rightarrow> Inl e | Inr u \<Rightarrow> Inr (redirect ''/posts/admin''))"
    using run_valid [of request fd env] assms by simp
  have c: "calls_of (action_unauthenticated env request)
             = [Call_updatePost i \<lparr> title = t, slug = s, markdown = m \<rparr>]"
    by (simp add: obs_defs r)
  have o: "updatePost env i \<lparr> title = t, slug = s, markdown = m \<rparr> = Inr ()
             \<Longrightarrow> outcome (action_unauthenticated env request) = Inr (redirect ''/posts/admin'')"
    by (simp add: obs_defs r)
  show ?thesis
    using c o by (simp add: calls_of_authenticated outcome_authenticated)
qed

text \<open>The theorem at a concrete update submission, in both routes.\<close>

theorem update_submission_updates_witness:
  "formData (signed_in [(''initialSlug'', Str ''old-slug''), (''title'', Str ''New title''),
                        (''slug'', Str ''new-slug''), (''markdown'', Str ''# Body'')])
     = Inr [(''initialSlug'', Str ''old-slug''), (''title'', Str ''New title''),
            (''slug'', Str ''new-slug''), (''markdown'', Str ''# Body'')]
   \<and> \<not> is_delete_submission [(''initialSlug'', Str ''old-slug''), (''title'', Str ''New title''),
                               (''slug'', Str ''new-slug''), (''markdown'', Str ''# Body'')]
   \<and> requireUserId test_collaborators
        (signed_in [(''initialSlug'', Str ''old-slug''), (''title'', Str ''New title''),
                    (''slug'', Str ''new-slug''), (''markdown'', Str ''# Body'')]) = Inr ''user-1''
   \<and> updatePost test_collaborators ''old-slug''
        \<lparr> title = ''New title'', slug = ''new-slug'', markdown = ''# Body'' \<rparr> = Inr ()
   \<and> calls_of (action_unauthenticated test_collaborators
        (signed_in [(''initialSlug'', Str ''old-slug''), (''title'', Str ''New title''),
                    (''slug'', Str ''new-slug''), (''markdown'', Str ''# Body'')]))
       = [Call_updatePost ''old-slug'' \<lparr> title = ''New title'', slug = ''new-slug'', markdown = ''# Body'' \<rparr>]
   \<and> outcome (action_unauthenticated test_collaborators
        (signed_in [(''initialSlug'', Str ''old-slug''), (''title'', Str ''New title''),
                    (''slug'', Str ''new-slug''), (''markdown'', Str ''# Body'')]))
       = Inr (redirect ''/posts/admin'')
   \<and> calls_of (action test_collaborators
        (signed_in [(''initialSlug'', Str ''old-slug''), (''title'', Str ''New title''),
                    (''slug'', Str ''new-slug''), (''markdown'', Str ''# Body'')]))
       = [Call_updatePost ''old-slug'' \<lparr> title = ''New title'', slug = ''new-slug'', markdown = ''# Body'' \<rparr>]
   \<and> outcome (action test_collaborators
        (signed_in [(''initialSlug'', Str ''old-slug''), (''title'', Str ''New title''),
                    (''slug'', Str ''new-slug''), (''markdown'', Str ''# Body'')]))
       = Inr (redirect ''/posts/admin'')"
proof -
  let ?fd = "[(''initialSlug'', Str ''old-slug''), (''title'', Str ''New title''),
              (''slug'', Str ''new-slug''), (''markdown'', Str ''# Body'')]"
  have h1: "formData (signed_in ?fd) = Inr ?fd" by simp
  have h2: "\<not> is_delete_submission ?fd"
    by (simp add: is_delete_submission_def Object_fromEntries_def)
  have h3: "formData_get ?fd ''initialSlug'' = Some (Str ''old-slug'')" by simp
  have h4: "formData_get ?fd ''title'' = Some (Str ''New title'')" by simp
  have h5: "formData_get ?fd ''slug'' = Some (Str ''new-slug'')" by simp
  have h6: "formData_get ?fd ''markdown'' = Some (Str ''# Body'')" by simp
  have h7: "requireUserId test_collaborators (signed_in ?fd) = Inr ''user-1''"
    by (simp add: test_collaborators_def)
  have h8: "updatePost test_collaborators ''old-slug''
              \<lparr> title = ''New title'', slug = ''new-slug'', markdown = ''# Body'' \<rparr> = Inr ()"
    by (simp add: test_collaborators_def)
  show ?thesis
    using update_submission_updates [OF h1 h2 h3 h4 _ h5 _ h6,
        where env = test_collaborators and userId = "''user-1''"]
      h1 h2 h7 h8
    by simp
qed

text \<open>
  C1 as stated asks nothing of \<^verbatim>\<open>initialSlug\<close>. An update submission with the three visible
  fields and no \<^verbatim>\<open>initialSlug\<close> passes validation and then fails the first invariant: no
  \<^verbatim>\<open>updatePost\<close> call, no redirect.
\<close>

theorem update_without_initialSlug_counterexample:
  "\<not> is_delete_submission [(''title'', Str ''New title''), (''slug'', Str ''new-slug''),
                            (''markdown'', Str ''# Body'')]
   \<and> \<not> empty_or_absent (formData_get [(''title'', Str ''New title''), (''slug'', Str ''new-slug''),
                                       (''markdown'', Str ''# Body'')] ''title'')
   \<and> \<not> empty_or_absent (formData_get [(''title'', Str ''New title''), (''slug'', Str ''new-slug''),
                                       (''markdown'', Str ''# Body'')] ''slug'')
   \<and> \<not> empty_or_absent (formData_get [(''title'', Str ''New title''), (''slug'', Str ''new-slug''),
                                       (''markdown'', Str ''# Body'')] ''markdown'')
   \<and> calls_of (action_unauthenticated test_collaborators
        (anonymous [(''title'', Str ''New title''), (''slug'', Str ''new-slug''),
                    (''markdown'', Str ''# Body'')])) = []
   \<and> outcome (action_unauthenticated test_collaborators
        (anonymous [(''title'', Str ''New title''), (''slug'', Str ''new-slug''),
                    (''markdown'', Str ''# Body'')]))
       = Inl (InvariantFailed ''initial slug must be a string'')"
  by (simp add: is_delete_submission_def Object_fromEntries_def empty_or_absent_def obs_defs
        action_unauthenticated_def eff_defs Object_values_def)

text \<open>
  C2. For every update submission in which any of \<^verbatim>\<open>title\<close>, \<^verbatim>\<open>slug\<close>, \<^verbatim>\<open>markdown\<close> is empty
  or absent, the action makes no persistence call (neither \<^verbatim>\<open>updatePost\<close> nor
  \<^verbatim>\<open>deletePost\<close>) and returns the errors object that holds a message for each empty or absent
  field and \<^verbatim>\<open>null\<close> for each present one. This holds in both routes, in the authenticated
  one once \<^verbatim>\<open>requireUserId\<close> has resolved.
\<close>

theorem update_submission_validation:
  assumes "formData request = Inr fd"
    and "\<not> is_delete_submission fd"
    and "empty_or_absent (formData_get fd ''title'') \<or> empty_or_absent (formData_get fd ''slug'')
           \<or> empty_or_absent (formData_get fd ''markdown'')"
  shows "calls_of (action_unauthenticated env request) = []
       \<and> outcome (action_unauthenticated env request)
           = Inr (json \<lparr> title = (if empty_or_absent (formData_get fd ''title'')
                                   then Some ''Title is required'' else None),
                          slug = (if empty_or_absent (formData_get fd ''slug'')
                                  then Some ''Slug is required'' else None),
                          markdown = (if empty_or_absent (formData_get fd ''markdown'')
                                      then Some ''Markdown is required'' else None) \<rparr>)
       \<and> (requireUserId env request = Inr userId
            \<longrightarrow> calls_of (action env request) = []
              \<and> outcome (action env request)
                  = Inr (json \<lparr> title = (if empty_or_absent (formData_get fd ''title'')
                                          then Some ''Title is required'' else None),
                                 slug = (if empty_or_absent (formData_get fd ''slug'')
                                         then Some ''Slug is required'' else None),
                                 markdown = (if empty_or_absent (formData_get fd ''markdown'')
                                             then Some ''Markdown is required'' else None) \<rparr>))"
proof -
  have falsy: "\<not> (truthy (formData_get fd ''title'') \<and> truthy (formData_get fd ''slug'')
                  \<and> truthy (formData_get fd ''markdown''))"
    using assms(3) by (simp add: truthy_iff)
  have r: "run (action_unauthenticated env request) =
             ([Call_formData],
              Inr (json \<lparr> title = (if empty_or_absent (formData_get fd ''title'')
                                     then Some ''Title is required'' else None),
                            slug = (if empty_or_absent (formData_get fd ''slug'')
                                    then Some ''Slug is required'' else None),
                            markdown = (if empty_or_absent (formData_get fd ''markdown'')
                                        then Some ''Markdown is required'' else None) \<rparr>))"
    using run_invalid [OF assms(1) assms(2) falsy, of env] by (simp add: truthy_iff)
  show ?thesis
    by (simp add: calls_of_authenticated outcome_authenticated) (simp add: obs_defs r)
qed

text \<open>
  The scenario of the specification: \<^verbatim>\<open>{title: "", slug: "x", markdown: "y"}\<close> yields
  \<^verbatim>\<open>{title: "Title is required", slug: null, markdown: null}\<close> and no update call.
\<close>

theorem update_submission_validation_witness:
  "formData (signed_in [(''title'', Str ''''), (''slug'', Str ''x''), (''markdown'', Str ''y'')])
     = Inr [(''title'', Str ''''), (''slug'', Str ''x''), (''markdown'', Str ''y'')]
   \<and> \<not> is_delete_submission [(''title'', Str ''''), (''slug'', Str ''x''), (''markdown'', Str ''y'')]
   \<and> empty_or_absent (formData_get [(''title'', Str ''''), (''slug'', Str ''x''), (''markdown'', Str ''y'')] ''title'')
   \<and> requireUserId test_collaborators
        (signed_in [(''title'', Str ''''), (''slug'', Str ''x''), (''markdown'', Str ''y'')]) = Inr ''user-1''
   \<and> calls_of (action_unauthenticated test_collaborators
        (signed_in [(''title'', Str ''''), (''slug'', Str ''x''), (''markdown'', Str ''y'')])) = []
   \<and> outcome (action_unauthenticated test_collaborators
        (signed_in [(''title'', Str ''''), (''slug'', Str ''x''), (''markdown'', Str ''y'')]))
       = Inr (json \<lparr> title = Some ''Title is required'', slug = None, markdown = None \<rparr>)
   \<and> calls_of (action test_collaborators
        (signed_in [(''title'', Str ''''), (''slug'', Str ''x''), (''markdown'', Str ''y'')])) = []
   \<and> outcome (action test_collaborators
        (signed_in [(''title'', Str ''''), (''slug'', Str ''x''), (''markdown'', Str ''y'')]))
       = Inr (json \<lparr> title = Some ''Title is required'', slug = None, markdown = None \<rparr>)"
proof -
  let ?fd = "[(''title'', Str ''''), (''slug'', Str ''x''), (''markdown'', Str ''y'')]"
  have h1: "formData (signed_in ?fd) = Inr ?fd" by simp
  have h2: "\<not> is_delete_submission ?fd"
    by (simp add: is_delete_submission_def Object_fromEntries_def)
  have h3: "empty_or_absent (formData_get ?fd ''title'')"
    by (simp add: empty_or_absent_def)
  have h3': "empty_or_absent (formData_get ?fd ''title'') \<or> empty_or_absent (formData_get ?fd ''slug'')
           \<or> empty_or_absent (formData_get ?fd ''markdown'')"
    using h3 by blast
  have h4: "requireUserId test_collaborators (signed_in ?fd) = Inr ''user-1''"
    by (simp add: test_collaborators_def)
  have e2: "\<not> empty_or_absent (formData_get ?fd ''slug'')"
    by (simp add: empty_or_absent_def)
  have e3: "\<not> empty_or_absent (formData_get ?fd ''markdown'')"
    by (simp add: empty_or_absent_def)
  show ?thesis
    using update_submission_validation [OF h1 h2 h3',
        where env = test_collaborators and userId = "''user-1''"]
      h1 h2 h3 h4 e2 e3
    by simp
qed

text \<open>
  C3. For every delete submission, whatever its other fields, the action makes exactly one
  persistence call, \<^verbatim>\<open>deletePost\<close> with the submitted \<^verbatim>\<open>slug\<close> value, and when that call
  resolves it returns a redirect to \<^verbatim>\<open>/posts/admin\<close>. This holds in both routes, in the
  authenticated one once \<^verbatim>\<open>requireUserId\<close> has resolved.
\<close>

theorem delete_submission_deletes:
  assumes "formData request = Inr fd"
    and "is_delete_submission fd"
  shows "calls_of (action_unauthenticated env request) = [Call_deletePost (formData_get fd ''slug'')]
       \<and> (deletePost env (formData_get fd ''slug'') = Inr ()
            \<longrightarrow> outcome (action_unauthenticated env request) = Inr (redirect ''/posts/admin''))
       \<and> (requireUserId env request = Inr userId
            \<longrightarrow> calls_of (action env request) = [Call_deletePost (formData_get fd ''slug'')]
              \<and> (deletePost env (formData_get fd ''slug'') = Inr ()
                   \<longrightarrow> outcome (action env request) = Inr (redirect ''/posts/admin'')))"
  by (simp add: calls_of_authenticated outcome_authenticated)
     (simp add: obs_defs run_delete [OF assms])

text \<open>
  The scenario of the specification: \<^verbatim>\<open>{_action: "delete", slug: "my-post"}\<close> calls
  \<^verbatim>\<open>deletePost("my-post")\<close> once and redirects to \<^verbatim>\<open>/posts/admin\<close>.
\<close>

theorem delete_submission_deletes_witness:
  "formData (signed_in [(''_action'', Str ''delete''), (''slug'', Str ''my-post'')])
     = Inr [(''_action'', Str ''delete''), (''slug'', Str ''my-post'')]
   \<and> is_delete_submission [(''_action'', Str ''delete''), (''slug'', Str ''my-post'')]
   \<and> deletePost test_collaborators (Some (Str ''my-post'')) = Inr ()
   \<and> requireUserId test_collaborators
        (signed_in [(''_action'', Str ''delete''), (''slug'', Str ''my-post'')]) = Inr ''user-1''
   \<and> calls_of (action_unauthenticated test_collaborators
        (signed_in [(''_action'', Str ''delete''), (''slug'', Str ''my-post'')]))
       = [Call_deletePost (Some (Str ''my-post''))]
   \<and> outcome (action_unauthenticated test_collaborators
        (signed_in [(''_action'', Str ''delete''), (''slug'', Str ''my-post'')]))
       = Inr (redirect ''/posts/admin'')
   \<and> calls_of (action test_collaborators
        (signed_in [(''_action'', Str ''delete''), (''slug'', Str ''my-post'')]))
       = [Call_deletePost (Some (Str ''my-post''))]
   \<and> outcome (action test_collaborators
        (signed_in [(''_action'', Str ''delete''), (''slug'', Str ''my-post'')]))
       = Inr (redirect ''/posts/admin'')"
proof -
  let ?fd = "[(''_action'', Str ''delete''), (''slug'', Str ''my-post'')]"
  have h1: "formData (signed_in ?fd) = Inr ?fd" by simp
  have h2: "is_delete_submission ?fd"
    by (simp add: is_delete_submission_def Object_fromEntries_def)
  have h3: "deletePost test_collaborators (Some (Str ''my-post'')) = Inr ()"
    by (simp add: test_collaborators_def)
  have h4: "requireUserId test_collaborators (signed_in ?fd) = Inr ''user-1''"
    by (simp add: test_collaborators_def)
  show ?thesis
    using delete_submission_deletes [OF h1 h2,
        where env = test_collaborators and userId = "''user-1''"]
      h1 h2 h3 h4
    by simp
qed

text \<open>
  C4 (as amended). For every request handled by the action, in both routes, at most one
  persistence call occurs, and never both a \<^verbatim>\<open>deletePost\<close> and an \<^verbatim>\<open>updatePost\<close> call;
  exactly one occurs whenever the action returns a redirect, and none when it returns the
  errors object.
\<close>

theorem at_most_one_persistence_call:
  "length (calls_of (action_unauthenticated env request)) \<le> 1
   \<and> (\<forall>url. outcome (action_unauthenticated env request) = Inr (redirect url)
          \<longrightarrow> length (calls_of (action_unauthenticated env request)) = 1)
   \<and> (\<forall>errors. outcome (action_unauthenticated env request) = Inr (json errors)
          \<longrightarrow> calls_of (action_unauthenticated env request) = [])
   \<and> \<not> (\<exists>v i p. Call_deletePost v \<in> set (trace_of (action_unauthenticated env request))
                \<and> Call_updatePost i p \<in> set (trace_of (action_unauthenticated env request)))
   \<and> length (calls_of (action env request)) \<le> 1
   \<and> (\<forall>url. outcome (action env request) = Inr (redirect url)
          \<longrightarrow> length (calls_of (action env request)) = 1)
   \<and> (\<forall>errors. outcome (action env request) = Inr (json errors)
          \<longrightarrow> calls_of (action env request) = [])
   \<and> \<not> (\<exists>v i p. Call_deletePost v \<in> set (trace_of (action env request))
                \<and> Call_updatePost i p \<in> set (trace_of (action env request)))"
  using at_most_one_unauthenticated [of env request] at_most_one_authenticated [of env request]
  by blast

text \<open>
  The theorem at a delete submission, which ends in the redirect after one call, and at a
  submission without \<^verbatim>\<open>markdown\<close>, which ends in the errors object after none.
\<close>

theorem at_most_one_persistence_call_witness:
  "outcome (action_unauthenticated test_collaborators
      (signed_in [(''_action'', Str ''delete''), (''slug'', Str ''my-post'')]))
     = Inr (redirect ''/posts/admin'')
   \<and> length (calls_of (action_unauthenticated test_collaborators
        (signed_in [(''_action'', Str ''delete''), (''slug'', Str ''my-post'')]))) = 1
   \<and> outcome (action test_collaborators
        (signed_in [(''_action'', Str ''delete''), (''slug'', Str ''my-post'')]))
     = Inr (redirect ''/posts/admin'')
   \<and> length (calls_of (action test_collaborators
        (signed_in [(''_action'', Str ''delete''), (''slug'', Str ''my-post'')]))) = 1
   \<and> outcome (action test_collaborators
        (signed_in [(''initialSlug'', Str ''a''), (''title'', Str ''T''), (''slug'', Str ''s'')]))
     = Inr (json \<lparr> title = None, slug = None, markdown = Some ''Markdown is required'' \<rparr>)
   \<and> calls_of (action test_collaborators
        (signed_in [(''initialSlug'', Str ''a''), (''title'', Str ''T''), (''slug'', Str ''s'')])) = []"
proof -
  let ?delete = "signed_in [(''_action'', Str ''delete''), (''slug'', Str ''my-post'')]"
  let ?invalid = "signed_in [(''initialSlug'', Str ''a''), (''title'', Str ''T''), (''slug'', Str ''s'')]"
  have o1: "outcome (action_unauthenticated test_collaborators ?delete) = Inr (redirect ''/posts/admin'')"
    by (simp add: obs_defs action_unauthenticated_def eff_defs Object_fromEntries_def test_collaborators_def)
  have o2: "outcome (action test_collaborators ?delete) = Inr (redirect ''/posts/admin'')"
    by (simp add: obs_defs action_def eff_defs Object_fromEntries_def test_collaborators_def)
  have o3: "outcome (action test_collaborators ?invalid)
              = Inr (json \<lparr> title = None, slug = None, markdown = Some ''Markdown is required'' \<rparr>)"
    by (simp add: obs_defs action_def eff_defs Object_fromEntries_def Object_values_def
          test_collaborators_def)
  show ?thesis
    using at_most_one_persistence_call [of test_collaborators ?delete]
      at_most_one_persistence_call [of test_collaborators ?invalid] o1 o2 o3
    by blast
qed

text \<open>
  C4 as stated asks for exactly one persistence call in every request. A submission that
  fails validation makes none.
\<close>

theorem validation_failure_no_call_counterexample:
  "calls_of (action_unauthenticated test_collaborators (anonymous [(''title'', Str ''Only a title'')])) = []
   \<and> calls_of (action test_collaborators (signed_in [(''title'', Str ''Only a title'')])) = []"
  by (simp add: obs_defs action_def action_unauthenticated_def eff_defs Object_fromEntries_def
        Object_values_def test_collaborators_def)

text \<open>
  C5. The loader fails fast, before it calls \<^verbatim>\<open>getPost\<close>, when the route's slug parameter is
  missing; for a present slug for which \<^verbatim>\<open>getPost\<close> finds no post it raises the not-found
  invariant failure; and for a present slug for which \<^verbatim>\<open>getPost\<close> finds a post it returns
  that post as response data. So, \<^verbatim>\<open>getPost\<close> having resolved, it raises exactly when one of its
  two preconditions fails.
\<close>

theorem loader_outcomes:
  "(slug_missing params \<longrightarrow>
      trace_of (loader env params) = []
      \<and> outcome (loader env params) = Inl (InvariantFailed ''params.slug is required''))
   \<and> (\<forall>s. params ''slug'' = Some s \<and> s \<noteq> [] \<and> getPost env s = Inr None \<longrightarrow>
          trace_of (loader env params) = [Call_getPost s]
          \<and> outcome (loader env params) = Inl (InvariantFailed (''Post not found: '' @ s)))
   \<and> (\<forall>s p. params ''slug'' = Some s \<and> s \<noteq> [] \<and> getPost env s = Inr (Some p) \<longrightarrow>
          trace_of (loader env params) = [Call_getPost s]
          \<and> outcome (loader env params) = Inr (json \<lparr> post = p \<rparr>))"
proof -
  have a: "slug_missing params \<longrightarrow>
      trace_of (loader env params) = []
      \<and> outcome (loader env params) = Inl (InvariantFailed ''params.slug is required'')"
    by (simp add: obs_defs loader_missing)
  have b: "\<forall>s. params ''slug'' = Some s \<and> s \<noteq> [] \<and> getPost env s = Inr None \<longrightarrow>
          trace_of (loader env params) = [Call_getPost s]
          \<and> outcome (loader env params) = Inl (InvariantFailed (''Post not found: '' @ s))"
    by (simp add: obs_defs loader_present)
  have c: "\<forall>s p. params ''slug'' = Some s \<and> s \<noteq> [] \<and> getPost env s = Inr (Some p) \<longrightarrow>
          trace_of (loader env params) = [Call_getPost s]
          \<and> outcome (loader env params) = Inr (json \<lparr> post = p \<rparr>)"
    by (simp add: obs_defs loader_present)
  show ?thesis using a b c by blast
qed

text \<open>The theorem at a request without slug, at an unknown slug and at a stored post's slug.\<close>

theorem loader_outcomes_witness:
  "slug_missing Map.empty
   \<and> outcome (loader test_collaborators Map.empty) = Inl (InvariantFailed ''params.slug is required'')
   \<and> getPost test_collaborators ''no-such-post'' = Inr None
   \<and> outcome (loader test_collaborators [''slug'' \<mapsto> ''no-such-post''])
       = Inl (InvariantFailed ''Post not found: no-such-post'')
   \<and> getPost test_collaborators ''my-post''
       = Inr (Some \<lparr> title = ''My Post'', slug = ''my-post'', markdown = ''# Hello'' \<rparr>)
   \<and> trace_of (loader test_collaborators [''slug'' \<mapsto> ''my-post'']) = [Call_getPost ''my-post'']
   \<and> outcome (loader test_collaborators [''slug'' \<mapsto> ''my-post''])
       = Inr (json \<lparr> post = \<lparr> title = ''My Post'', slug = ''my-post'', markdown = ''# Hello'' \<rparr> \<rparr>)"
proof -
  have h1: "slug_missing Map.empty" by (simp add: slug_missing_def)
  have h2: "getPost test_collaborators ''no-such-post'' = Inr None"
    by (simp add: test_collaborators_def)
  have h3: "getPost test_collaborators ''my-post''
       = Inr (Some \<lparr> title = ''My Post'', slug = ''my-post'', markdown = ''# Hello'' \<rparr>)"
    by (simp add: test_collaborators_def)
  show ?thesis
    using loader_outcomes [of Map.empty test_collaborators]
      loader_outcomes [of "[''slug'' \<mapsto> ''no-such-post'']" test_collaborators]
      loader_outcomes [of "[''slug'' \<mapsto> ''my-post'']" test_collaborators]
      h1 h2 h3
    by simp
qed

text \<open>
  C6. Once \<^verbatim>\<open>requireUserId\<close> has resolved, the action of the authenticated route makes the
  same persistence calls and ends with the same response or thrown value as the action of the
  unauthenticated route on the same request; its trace is the other's after the
  \<^verbatim>\<open>requireUserId\<close> call.
\<close>

theorem authenticated_action_same_as_unauthenticated:
  assumes "requireUserId env request = Inr userId"
  shows "calls_of (action env request) = calls_of (action_unauthenticated env request)
       \<and> outcome (action env request) = outcome (action_unauthenticated env request)
       \<and> trace_of (action env request) = Call_requireUserId # trace_of (action_unauthenticated env request)"
  by (simp add: obs_defs action_authenticated_run [OF assms])

text \<open>The theorem at a submission whose \<^verbatim>\<open>slug\<close> is an uploaded file: both actions fail the same invariant.\<close>

theorem authenticated_action_same_as_unauthenticated_witness:
  "requireUserId test_collaborators
      (signed_in [(''initialSlug'', Str ''a''), (''title'', Str ''T''), (''slug'', File ''upload.bin''),
                  (''markdown'', Str ''m'')]) = Inr ''user-1''
   \<and> calls_of (action test_collaborators
        (signed_in [(''initialSlug'', Str ''a''), (''title'', Str ''T''), (''slug'', File ''upload.bin''),
                    (''markdown'', Str ''m'')]))
     = calls_of (action_unauthenticated test_collaborators
        (signed_in [(''initialSlug'', Str ''a''), (''title'', Str ''T''), (''slug'', File ''upload.bin''),
                    (''markdown'', Str ''m'')]))
   \<and> outcome (action test_collaborators
        (signed_in [(''initialSlug'', Str ''a''), (''title'', Str ''T''), (''slug'', File ''upload.bin''),
                    (''markdown'', Str ''m'')]))
     = outcome (action_unauthenticated test_collaborators
        (signed_in [(''initialSlug'', Str ''a''), (''title'', Str ''T''), (''slug'', File ''upload.bin''),
                    (''markdown'', Str ''m'')]))
   \<and> outcome (action test_collaborators
        (signed_in [(''initialSlug'', Str ''a''), (''title'', Str ''T''), (''slug'', File ''upload.bin''),
                    (''markdown'', Str ''m'')]))
     = Inl (InvariantFailed ''slug must be a string'')"
proof -
  let ?request = "signed_in [(''initialSlug'', Str ''a''), (''title'', Str ''T''),
                             (''slug'', File ''upload.bin''), (''markdown'', Str ''m'')]"
  have h: "requireUserId test_collaborators ?request = Inr ''user-1''"
    by (simp add: test_collaborators_def)
  have o: "outcome (action_unauthenticated test_collaborators ?request)
             = Inl (InvariantFailed ''slug must be a string'')"
    by (simp add: obs_defs action_unauthenticated_def eff_defs Object_fromEntries_def Object_values_def)
  show ?thesis
    using authenticated_action_same_as_unauthenticated [OF h] h o by simp
qed

text \<open>
  C7. In the authenticated route, when \<^verbatim>\<open>requireUserId\<close> fails the action ends with what
  \<^verbatim>\<open>requireUserId\<close> threw and has done nothing else: \<^verbatim>\<open>request.formData()\<close> is not called, so
  no validation result is produced, and neither \<^verbatim>\<open>deletePost\<close> nor \<^verbatim>\<open>updatePost\<close> is called.
\<close>

theorem authentication_failure_stops_action:
  assumes "requireUserId env request = Inl e"
  shows "trace_of (action env request) = [Call_requireUserId]
       \<and> outcome (action env request) = Inl e
       \<and> Call_formData \<notin> set (trace_of (action env request))
       \<and> calls_of (action env request) = []"
  using assms by (simp add: obs_defs action_def eff_defs)

text \<open>The theorem at a delete submission sent without a session.\<close>

theorem authentication_failure_stops_action_witness:
  "requireUserId test_collaborators (anonymous [(''_action'', Str ''delete''), (''slug'', Str ''my-post'')])
     = Inl (Rejected ''/login'')
   \<and> trace_of (action test_collaborators (anonymous [(''_action'', Str ''delete''), (''slug'', Str ''my-post'')]))
       = [Call_requireUserId]
   \<and> outcome (action test_collaborators (anonymous [(''_action'', Str ''delete''), (''slug'', Str ''my-post'')]))
       = Inl (Rejected ''/login'')
   \<and> Call_formData \<notin> set (trace_of (action test_collaborators
         (anonymous [(''_action'', Str ''delete''), (''slug'', Str ''my-post'')])))
   \<and> calls_of (action test_collaborators (anonymous [(''_action'', Str ''delete''), (''slug'', Str ''my-post'')]))
       = []"
proof -
  have h: "requireUserId test_collaborators
             (anonymous [(''_action'', Str ''delete''), (''slug'', Str ''my-post'')]) = Inl (Rejected ''/login'')"
    by (simp add: test_collaborators_def)
  show ?thesis
    using authentication_failure_stops_action [OF h] h by simp
qed

text \<open>
  C8. For every update submission in which \<^verbatim>\<open>title\<close>, \<^verbatim>\<open>slug\<close> and \<^verbatim>\<open>markdown\<close> are all
  present and non-empty but \<^verbatim>\<open>initialSlug\<close> is absent or is not a string, the action fails
  the invariant on \<^verbatim>\<open>initialSlug\<close> before it calls \<^verbatim>\<open>updatePost\<close>, so no persistence call
  occurs. This holds in both routes, in the authenticated one once \<^verbatim>\<open>requireUserId\<close> has
  resolved.
\<close>

theorem update_without_initialSlug_fails:
  assumes "formData request = Inr fd"
    and "\<not> is_delete_submission fd"
    and "\<not> empty_or_absent (formData_get fd ''title'')"
    and "\<not> empty_or_absent (formData_get fd ''slug'')"
    and "\<not> empty_or_absent (formData_get fd ''markdown'')"
    and "typeof_string (formData_get fd ''initialSlug'') = None"
  shows "trace_of (action_unauthenticated env request) = [Call_formData]
       \<and> calls_of (action_unauthenticated env request) = []
       \<and> outcome (action_unauthenticated env request)
           = Inl (InvariantFailed ''initial slug must be a string'')
       \<and> (requireUserId env request = Inr userId
            \<longrightarrow> trace_of (action env request) = [Call_requireUserId, Call_formData]
              \<and> calls_of (action env request) = []
              \<and> outcome (action env request)
                  = Inl (InvariantFailed ''initial slug must be a string''))"
proof -
  have r: "run (action_unauthenticated env request)
             = ([Call_formData], Inl (InvariantFailed ''initial slug must be a string''))"
    using run_valid [OF assms(1) assms(2), of env] assms(3-6) by (simp add: truthy_iff)
  show ?thesis
    by (simp add: obs_defs action_authenticated_run r)
qed

text \<open>The theorem at an update submission that has the three visible fields only.\<close>

theorem update_without_initialSlug_fails_witness:
  "formData (signed_in [(''title'', Str ''T''), (''slug'', Str ''s''), (''markdown'', Str ''m'')])
     = Inr [(''title'', Str ''T''), (''slug'', Str ''s''), (''markdown'', Str ''m'')]
   \<and> \<not> is_delete_submission [(''title'', Str ''T''), (''slug'', Str ''s''), (''markdown'', Str ''m'')]
   \<and> \<not> empty_or_absent (formData_get [(''title'', Str ''T''), (''slug'', Str ''s''), (''markdown'', Str ''m'')] ''title'')
   \<and> \<not> empty_or_absent (formData_get [(''title'', Str ''T''), (''slug'', Str ''s''), (''markdown'', Str ''m'')] ''slug'')
   \<and> \<not> empty_or_absent (formData_get [(''title'', Str ''T''), (''slug'', Str ''s''), (''markdown'', Str ''m'')] ''markdown'')
   \<and> typeof_string (formData_get [(''title'', Str ''T''), (''slug'', Str ''s''), (''markdown'', Str ''m'')] ''initialSlug'') = None
   \<and> requireUserId test_collaborators
        (signed_in [(''title'', Str ''T''), (''slug'', Str ''s''), (''markdown'', Str ''m'')]) = Inr ''user-1''
   \<and> calls_of (action_unauthenticated test_collaborators
        (signed_in [(''title'', Str ''T''), (''slug'', Str ''s''), (''markdown'', Str ''m'')])) = []
   \<and> outcome (action_unauthenticated test_collaborators
        (signed_in [(''title'', Str ''T''), (''slug'', Str ''s''), (''markdown'', Str ''m'')]))
       = Inl (InvariantFailed ''initial slug must be a string'')
   \<and> calls_of (action test_collaborators
        (signed_in [(''title'', Str ''T''), (''slug'', Str ''s''), (''markdown'', Str ''m'')])) = []
   \<and> outcome (action test_collaborators
        (signed_in [(''title'', Str ''T''), (''slug'', Str ''s''), (''markdown'', Str ''m'')]))
       = Inl (InvariantFailed ''initial slug must be a string'')"
proof -
  let ?fd = "[(''title'', Str ''T''), (''slug'', Str ''s''), (''markdown'', Str ''m'')]"
  have h1: "formData (signed_in ?fd) = Inr ?fd" by simp
  have h2: "\<not> is_delete_submission ?fd"
    by (simp add: is_delete_submission_def Object_fromEntries_def)
  have h3: "\<not> empty_or_absent (formData_get ?fd ''title'')" by (simp add: empty_or_absent_def)
  have h4: "\<not> empty_or_absent (formData_get ?fd ''slug'')" by (simp add: empty_or_absent_def)
  have h5: "\<not> empty_or_absent (formData_get ?fd ''markdown'')" by (simp add: empty_or_absent_def)
  have h6: "typeof_string (formData_get ?fd ''initialSlug'') = None" by simp
  have h7: "requireUserId test_collaborators (signed_in ?fd) = Inr ''user-1''"
    by (simp add: test_collaborators_def)
  show ?thesis
    using update_without_initialSlug_fails [OF h1 h2 h3 h4 h5 h6,
        where env = test_collaborators and userId = "''user-1''"]
      h1 h2 h3 h4 h5 h6 h7
    by simp
qed

text \<open>
  C9. The branch discriminator is exact equality with the string \<^verbatim>\<open>"delete"\<close>: for every
  submission whose \<^verbatim>\<open>_action\<close> is anything else (\<^verbatim>\<open>"Delete"\<close>, \<^verbatim>\<open>"DELETE"\<close>, a file, or absent)
  the action never calls \<^verbatim>\<open>deletePost\<close> and runs validation and update on the submitted
  fields: when \<^verbatim>\<open>title\<close>, \<^verbatim>\<open>slug\<close> or \<^verbatim>\<open>markdown\<close> is empty or absent it returns their errors
  object and calls nothing; otherwise it checks that \<^verbatim>\<open>initialSlug\<close>, \<^verbatim>\<open>title\<close>, \<^verbatim>\<open>slug\<close> and
  \<^verbatim>\<open>markdown\<close> are strings, in this order, failing the first invariant that does not hold, and
  then calls \<^verbatim>\<open>updatePost\<close> with exactly these values and redirects once the call resolves.
  The authenticated route does the same after its \<^verbatim>\<open>requireUserId\<close> call has resolved.
\<close>

theorem other_action_values_take_update_path:
  assumes "formData request = Inr fd"
    and "Object_fromEntries fd ''_action'' \<noteq> Some (Str ''delete'')"
  shows "run (action_unauthenticated env request) =
           (if empty_or_absent (formData_get fd ''title'') \<or> empty_or_absent (formData_get fd ''slug'')
                 \<or> empty_or_absent (formData_get fd ''markdown'')
            then ([Call_formData],
                  Inr (json \<lparr> title = (if empty_or_absent (formData_get fd ''title'')
                                         then Some ''Title is required'' else None),
                                slug = (if empty_or_absent (formData_get fd ''slug'')
                                        then Some ''Slug is required'' else None),
                                markdown = (if empty_or_absent (formData_get fd ''markdown'')
                                            then Some ''Markdown is required'' else None) \<rparr>))
            else
           (case typeof_string (formData_get fd ''initialSlug'') of
              None \<Rightarrow> ([Call_formData], Inl (InvariantFailed ''initial slug must be a string''))
            | Some i \<Rightarrow>
           (case typeof_string (formData_get fd ''title'') of
              None \<Rightarrow> ([Call_formData], Inl (InvariantFailed ''title must be a string''))
            | Some t \<Rightarrow>
           (case typeof_string (formData_get fd ''slug'') of
              None \<Rightarrow> ([Call_formData], Inl (InvariantFailed ''slug must be a string''))
            | Some s \<Rightarrow>
           (case typeof_string (formData_get fd ''markdown'') of
              None \<Rightarrow> ([Call_formData], Inl (InvariantFailed ''markdown must be a string''))
            | Some m \<Rightarrow>
              ([Call_formData, Call_updatePost i \<lparr> title = t, slug = s, markdown = m \<rparr>],
               case updatePost env i \<lparr> title = t, slug = s, markdown = m \<rparr> of
                 Inl e \<Rightarrow> Inl e
               | Inr u \<Rightarrow> Inr (redirect ''/posts/admin'')))))))
       \<and> (\<forall>v. Call_deletePost v \<notin> set (trace_of (action_unauthenticated env request)))
       \<and> (requireUserId env request = Inr userId \<longrightarrow>
            run (action env request)
              = (Call_requireUserId # fst (run (action_unauthenticated env request)),
                 snd (run (action_unauthenticated env request)))
            \<and> (\<forall>v. Call_deletePost v \<notin> set (trace_of (action env request))))"
proof -
  have nd: "\<not> is_delete_submission fd"
    using assms(2) by (simp add: is_delete_submission_def)
  have r: "run (action_unauthenticated env request) =
           (if empty_or_absent (formData_get fd ''title'') \<or> empty_or_absent (formData_get fd ''slug'')
                 \<or> empty_or_absent (formData_get fd ''markdown'')
            then ([Call_formData],
                  Inr (json \<lparr> title = (if empty_or_absent (formData_get fd ''title'')
                                         then Some ''Title is required'' else None),
                                slug = (if empty_or_absent (formData_get fd ''slug'')
                                        then Some ''Slug is required'' else None),
                                markdown = (if empty_or_absent (formData_get fd ''markdown'')
                                            then Some ''Markdown is required'' else None) \<rparr>))
            else
           (case typeof_string (formData_get fd ''initialSlug'') of
              None \<Rightarrow> ([Call_formData], Inl (InvariantFailed ''initial slug must be a string''))
            | Some i \<Rightarrow>
           (case typeof_string (formData_get fd ''title'') of
              None \<Rightarrow> ([Call_formData], Inl (InvariantFailed ''title must be a string''))
            | Some t \<Rightarrow>
           (case typeof_string (formData_get fd ''slug'') of
              None \<Rightarrow> ([Call_formData], Inl (InvariantFailed ''slug must be a string''))
            | Some s \<Rightarrow>
           (case typeof_string (formData_get fd ''markdown'') of
              None \<Rightarrow> ([Call_formData], Inl (InvariantFailed ''markdown must be a string''))
            | Some m \<Rightarrow>
              ([Call_formData, Call_updatePost i \<lparr> title = t, slug = s, markdown = m \<rparr>],
               case updatePost env i \<lparr> title = t, slug = s, markdown = m \<rparr> of
                 Inl e \<Rightarrow> Inl e
               | Inr u \<Rightarrow> Inr (redirect ''/posts/admin'')))))))"
  proof (cases "truthy (formData_get fd ''title'') \<and> truthy (formData_get fd ''slug'')
                  \<and> truthy (formData_get fd ''markdown'')")
    case True
    then have "run (action_unauthenticated env request) =
           (case typeof_string (formData_get fd ''initialSlug'') of
              None \<Rightarrow> ([Call_formData], Inl (InvariantFailed ''initial slug must be a string''))
            | Some i \<Rightarrow>
           (case typeof_string (formData_get fd ''title'') of
              None \<Rightarrow> ([Call_formData], Inl (InvariantFailed ''title must be a string''))
            | Some t \<Rightarrow>
           (case typeof_string (formData_get fd ''slug'') of
              None \<Rightarrow> ([Call_formData], Inl (InvariantFailed ''slug must be a string''))
            | Some s \<Rightarrow>
           (case typeof_string (formData_get fd ''markdown'') of
              None \<Rightarrow> ([Call_formData], Inl (InvariantFailed ''markdown must be a string''))
            | Some m \<Rightarrow>
              ([Call_formData, Call_updatePost i \<lparr> title = t, slug = s, markdown = m \<rparr>],
               case updatePost env i \<lparr> title = t, slug = s, markdown = m \<rparr> of
                 Inl e \<Rightarrow> Inl e
               | Inr u \<Rightarrow> Inr (redirect ''/posts/admin''))))))"
      using run_valid [OF assms(1) nd, of env] by blast
    moreover have "\<not> (empty_or_absent (formData_get fd ''title'')
                      \<or> empty_or_absent (formData_get fd ''slug'')
                      \<or> empty_or_absent (formData_get fd ''markdown''))"
      using True by (simp add: truthy_iff)
    ultimately show ?thesis by (simp only: if_False)
  next
    case False
    have e: "empty_or_absent (formData_get fd ''title'') \<or> empty_or_absent (formData_get fd ''slug'')
               \<or> empty_or_absent (formData_get fd ''markdown'')"
      using False by (simp add: truthy_iff)
    show ?thesis
      using run_invalid [OF assms(1) nd False, of env] e by (simp add: truthy_iff)
  qed
  have d: "\<forall>v. Call_deletePost v \<notin> set (trace_of (action_unauthenticated env request))"
    using no_deletePost_unauthenticated [OF assms(1) nd] by blast
  have a: "requireUserId env request = Inr userId \<Longrightarrow>
             run (action env request)
               = (Call_requireUserId # fst (run (action_unauthenticated env request)),
                  snd (run (action_unauthenticated env request)))"
    by (rule action_authenticated_run)
  have da: "requireUserId env request = Inr userId \<Longrightarrow>
              \<forall>v. Call_deletePost v \<notin> set (trace_of (action env request))"
    using d by (simp add: obs_defs action_authenticated_run)
  show ?thesis
    using r d a da by blast
qed

text \<open>The theorem at a complete submission whose \<^verbatim>\<open>_action\<close> is \<^verbatim>\<open>"Delete"\<close>: the post is updated.\<close>

theorem other_action_values_take_update_path_witness:
  "formData (signed_in [(''_action'', Str ''Delete''), (''initialSlug'', Str ''my-post''),
                        (''title'', Str ''T''), (''slug'', Str ''my-post''), (''markdown'', Str ''m'')])
     = Inr [(''_action'', Str ''Delete''), (''initialSlug'', Str ''my-post''),
            (''title'', Str ''T''), (''slug'', Str ''my-post''), (''markdown'', Str ''m'')]
   \<and> Object_fromEntries [(''_action'', Str ''Delete''), (''initialSlug'', Str ''my-post''),
            (''title'', Str ''T''), (''slug'', Str ''my-post''), (''markdown'', Str ''m'')] ''_action''
       \<noteq> Some (Str ''delete'')
   \<and> requireUserId test_collaborators
        (signed_in [(''_action'', Str ''Delete''), (''initialSlug'', Str ''my-post''),
                    (''title'', Str ''T''), (''slug'', Str ''my-post''), (''markdown'', Str ''m'')])
       = Inr ''user-1''
   \<and> run (action_unauthenticated test_collaborators
        (signed_in [(''_action'', Str ''Delete''), (''initialSlug'', Str ''my-post''),
                    (''title'', Str ''T''), (''slug'', Str ''my-post''), (''markdown'', Str ''m'')]))
       = ([Call_formData,
           Call_updatePost ''my-post'' \<lparr> title = ''T'', slug = ''my-post'', markdown = ''m'' \<rparr>],
          Inr (redirect ''/posts/admin''))
   \<and> run (action test_collaborators
        (signed_in [(''_action'', Str ''Delete''), (''initialSlug'', Str ''my-post''),
                    (''title'', Str ''T''), (''slug'', Str ''my-post''), (''markdown'', Str ''m'')]))
       = ([Call_requireUserId, Call_formData,
           Call_updatePost ''my-post'' \<lparr> title = ''T'', slug = ''my-post'', markdown = ''m'' \<rparr>],
          Inr (redirect ''/posts/admin''))
   \<and> Call_deletePost (Some (Str ''my-post''))
       \<notin> set (trace_of (action test_collaborators
            (signed_in [(''_action'', Str ''Delete''), (''initialSlug'', Str ''my-post''),
                        (''title'', Str ''T''), (''slug'', Str ''my-post''), (''markdown'', Str ''m'')])))"
proof -
  let ?fd = "[(''_action'', Str ''Delete''), (''initialSlug'', Str ''my-post''),
              (''title'', Str ''T''), (''slug'', Str ''my-post''), (''markdown'', Str ''m'')]"
  have h1: "formData (signed_in ?fd) = Inr ?fd" by simp
  have h2: "Object_fromEntries ?fd ''_action'' \<noteq> Some (Str ''delete'')"
    by (simp add: Object_fromEntries_def)
  have h3: "requireUserId test_collaborators (signed_in ?fd) = Inr ''user-1''"
    by (simp add: test_collaborators_def)
  have u: "updatePost test_collaborators ''my-post''
             \<lparr> title = ''T'', slug = ''my-post'', markdown = ''m'' \<rparr> = Inr ()"
    by (simp add: test_collaborators_def)
  have e: "\<not> empty_or_absent (formData_get ?fd ''title'')"
          "\<not> empty_or_absent (formData_get ?fd ''slug'')"
          "\<not> empty_or_absent (formData_get ?fd ''markdown'')"
    by (simp_all add: empty_or_absent_def)
  show ?thesis
    using other_action_values_take_update_path [OF h1 h2,
        where env = test_collaborators and userId = "''user-1''"]
      h1 h2 h3 u e
    by simp
qed

text \<open>
  C10. For every delete submission without a \<^verbatim>\<open>slug\<close> field the action validates nothing and
  returns no errors object: it calls \<^verbatim>\<open>deletePost\<close> exactly once, with \<^verbatim>\<open>null\<close>, and when
  that call resolves it redirects to \<^verbatim>\<open>/posts/admin\<close>. This holds in both routes, in the
  authenticated one once \<^verbatim>\<open>requireUserId\<close> has resolved.
\<close>

theorem delete_without_slug_passes_null:
  assumes "formData request = Inr fd"
    and "is_delete_submission fd"
    and "formData_get fd ''slug'' = None"
  shows "calls_of (action_unauthenticated env request) = [Call_deletePost None]
       \<and> (\<forall>errors. outcome (action_unauthenticated env request) \<noteq> Inr (json errors))
       \<and> (deletePost env None = Inr ()
            \<longrightarrow> outcome (action_unauthenticated env request) = Inr (redirect ''/posts/admin''))
       \<and> (requireUserId env request = Inr userId
            \<longrightarrow> calls_of (action env request) = [Call_deletePost None]
              \<and> (\<forall>errors. outcome (action env request) \<noteq> Inr (json errors))
              \<and> (deletePost env None = Inr ()
                   \<longrightarrow> outcome (action env request) = Inr (redirect ''/posts/admin'')))"
  by (simp add: calls_of_authenticated outcome_authenticated)
     (simp add: obs_defs run_delete [OF assms(1) assms(2)] assms(3) split: sum.splits)

text \<open>The theorem at a submission that holds the \<^verbatim>\<open>_action\<close> field alone.\<close>

theorem delete_without_slug_passes_null_witness:
  "formData (signed_in [(''_action'', Str ''delete'')]) = Inr [(''_action'', Str ''delete'')]
   \<and> is_delete_submission [(''_action'', Str ''delete'')]
   \<and> formData_get [(''_action'', Str ''delete'')] ''slug'' = None
   \<and> deletePost test_collaborators None = Inr ()
   \<and> requireUserId test_collaborators (signed_in [(''_action'', Str ''delete'')]) = Inr ''user-1''
   \<and> calls_of (action_unauthenticated test_collaborators (signed_in [(''_action'', Str ''delete'')]))
       = [Call_deletePost None]
   \<and> outcome (action_unauthenticated test_collaborators (signed_in [(''_action'', Str ''delete'')]))
       = Inr (redirect ''/posts/admin'')
   \<and> calls_of (action test_collaborators (signed_in [(''_action'', Str ''delete'')]))
       = [Call_deletePost None]
   \<and> outcome (action test_collaborators (signed_in [(''_action'', Str ''delete'')]))
       = Inr (redirect ''/posts/admin'')"
proof -
  let ?fd = "[(''_action'', Str ''delete'')]"
  have h1: "formData (signed_in ?fd) = Inr ?fd" by simp
  have h2: "is_delete_submission ?fd"
    by (simp add: is_delete_submission_def Object_fromEntries_def)
  have h3: "formData_get ?fd ''slug'' = None" by simp
  have h4: "deletePost test_collaborators None = Inr ()"
    by (simp add: test_collaborators_def)
  have h5: "requireUserId test_collaborators (signed_in ?fd) = Inr ''user-1''"
    by (simp add: test_collaborators_def)
  show ?thesis
    using delete_without_slug_passes_null [OF h1 h2 h3,
        where env = test_collaborators and userId = "''user-1''"]
      h1 h2 h3 h4 h5
    by simp
qed

end
